theory Spec2Isabelle
  imports Main "HOL-Library.Sublist"
begin

section \<open>Values, errors and the backing file\<close>

text \<open>
  The program is \<^verbatim>\<open>library.py\<close>: a class \<^verbatim>\<open>Book\<close>, a class \<^verbatim>\<open>Library\<close> holding a list
  of books and the path of a JSON file, and a console menu. The spec calls them Record,
  Catalog and shell.

  Python's \<^verbatim>\<open>str\<close> is modelled by \<open>string\<close>. ASCII text is written literally; the two
  Cyrillic status literals of the source are spelled by their UTF-8 bytes. No definition
  below looks inside a character, except \<open>str_int\<close>, which produces ASCII digits.

  A JSON document, as \<^verbatim>\<open>json.load\<close> hands it to the program. An object is the list of
  its items in order (it stands for a \<^verbatim>\<open>dict\<close>, so its keys are distinct). A number with a
  fraction or an exponent is \<open>JFloat\<close>; its value is not represented, since no attribute
  of a book is annotated as a float.
\<close>

datatype json =
    JNull
  | JBool bool
  | JInt int
  | JFloat
  | JString string
  | JArray "json list"
  | JObject "(string \<times> json) list"

text \<open>The exceptions that the modelled code can raise.\<close>

datatype exn =
    FileNotFoundError
  | JSONDecodeError
  | KeyError string
  | TypeError
  | AttributeError string
  | OSError

text \<open>
  The result of running a piece of the program: it returns a value, or it raises, or
  (\<open>Untyped\<close>) it goes on with an attribute whose value is outside the type that the
  class annotates for it (\<^verbatim>\<open>Book.from_dict\<close> checks no types). The records below are
  typed as the annotations say, so nothing is modelled, and nothing is claimed, past that
  point.
\<close>

datatype 'a res = Returns 'a | Raises exn | Untyped

fun bind_res :: "'a res \<Rightarrow> ('a \<Rightarrow> 'b res) \<Rightarrow> 'b res" where
  "bind_res (Returns x) f = f x"
| "bind_res (Raises e) f = Raises e"
| "bind_res Untyped f = Untyped"

text \<open>
  What \<^verbatim>\<open>open(path, "r", encoding="utf-8")\<close> followed by \<^verbatim>\<open>json.load\<close> finds at a path:
  no file, a text that is not JSON, or a JSON document. \<open>writable\<close> tells whether
  \<^verbatim>\<open>open(path, "w")\<close> succeeds there. \<^verbatim>\<open>json.dump\<close> followed by \<^verbatim>\<open>json.load\<close> is taken to
  give the document back, so a written file holds the document itself.
\<close>

datatype file_state = Missing | Not_json | Document json

record disk =
  files :: "string \<Rightarrow> file_state"
  writable :: "string \<Rightarrow> bool"

section \<open>Book\<close>

record book =
  book_id :: int
  title :: string
  author :: string
  year :: int
  status :: string

text \<open>The two status literals of the source, "in stock" and "lent out", as UTF-8.\<close>

definition status_available :: string where
  "status_available =
     [CHR 0xD0, CHR 0xB2, CHR 0x20, CHR 0xD0, CHR 0xBD, CHR 0xD0, CHR 0xB0, CHR 0xD0, CHR 0xBB,
      CHR 0xD0, CHR 0xB8, CHR 0xD1, CHR 0x87, CHR 0xD0, CHR 0xB8, CHR 0xD0, CHR 0xB8]"

definition status_issued :: string where
  "status_issued =
     [CHR 0xD0, CHR 0xB2, CHR 0xD1, CHR 0x8B, CHR 0xD0, CHR 0xB4, CHR 0xD0, CHR 0xB0, CHR 0xD0, CHR 0xBD,
      CHR 0xD0, CHR 0xB0]"

text \<open>\<^verbatim>\<open>Book.__init__\<close> with its default status.\<close>

definition Book :: "int \<Rightarrow> string \<Rightarrow> string \<Rightarrow> int \<Rightarrow> book" where
  "Book i t a y = \<lparr>book_id = i, title = t, author = a, year = y, status = status_available\<rparr>"

definition to_dict :: "book \<Rightarrow> json" where
  "to_dict b =
     JObject [(''id'', JInt (book_id b)),
              (''title'', JString (title b)),
              (''author'', JString (author b)),
              (''year'', JInt (year b)),
              (''status'', JString (status b))]"

text \<open>
  \<^verbatim>\<open>data[key]\<close>: a missing key of a dict raises \<^verbatim>\<open>KeyError\<close>; a value that is not a dict
  cannot be subscripted by a string and raises \<^verbatim>\<open>TypeError\<close>.
\<close>

fun subscript :: "json \<Rightarrow> string \<Rightarrow> json res" where
  "subscript (JObject kvs) k =
     (case map_of kvs k of None \<Rightarrow> Raises (KeyError k) | Some v \<Rightarrow> Returns v)"
| "subscript _ k = Raises TypeError"

text \<open>
  The constructor call at the end of \<^verbatim>\<open>from_dict\<close>: the five values become the attributes
  as they are. Values of the annotated types give a book; any other gives \<open>Untyped\<close>.
\<close>

fun construct :: "json \<Rightarrow> json \<Rightarrow> json \<Rightarrow> json \<Rightarrow> json \<Rightarrow> book res" where
  "construct (JInt i) (JString t) (JString a) (JInt y) (JString s) =
     Returns \<lparr>book_id = i, title = t, author = a, year = y, status = s\<rparr>"
| "construct _ _ _ _ _ = Untyped"

text \<open>\<^verbatim>\<open>Book.from_dict\<close>: the keyword arguments are evaluated in the order written.\<close>

definition from_dict :: "json \<Rightarrow> book res" where
  "from_dict data =
     bind_res (subscript data ''id'') (\<lambda>i.
     bind_res (subscript data ''title'') (\<lambda>t.
     bind_res (subscript data ''author'') (\<lambda>a.
     bind_res (subscript data ''year'') (\<lambda>y.
     bind_res (subscript data ''status'') (\<lambda>s.
       construct i t a y s)))))"

section \<open>Library\<close>

record library =
  books :: "book list"
  data_file :: string

text \<open>
  The lines that the methods print, one constructor for each \<^verbatim>\<open>print\<close> call of the class:
  book added (title, year), book removed (id), book not found (id), nothing found
  (keyword), library empty, one line of \<^verbatim>\<open>display_books\<close> (all five attributes), status
  changed (id, status), invalid status.
\<close>

datatype message =
    Book_added string int
  | Book_removed int
  | Book_not_found int
  | Nothing_found string
  | Library_empty
  | Book_line book
  | Status_changed int string
  | Invalid_status

text \<open>
  What a method call leaves behind: its result (every method below except
  \<^verbatim>\<open>find_book_by_id\<close> ends without a \<^verbatim>\<open>return\<close> statement, so it returns \<^verbatim>\<open>None\<close>; the
  value is a \<open>book option\<close> so that \<^verbatim>\<open>None\<close> can be told apart from a returned book), the
  library object and the disk after the call (also when the call raised), and the lines
  printed.
\<close>

record outcome =
  result :: "book option res"
  self :: library
  disk :: disk
  printed :: "message list"

text \<open>\<^verbatim>\<open>for book in data\<close>: a list gives its elements, a dict its keys, a string its
  characters; the other values are not iterable.\<close>

fun iterate :: "json \<Rightarrow> json list res" where
  "iterate (JArray xs) = Returns xs"
| "iterate (JObject kvs) = Returns (map (\<lambda>kv. JString (fst kv)) kvs)"
| "iterate (JString s) = Returns (map (\<lambda>c. JString [c]) s)"
| "iterate _ = Raises TypeError"

text \<open>The list comprehension of \<^verbatim>\<open>load_books\<close>; the first failure ends it.\<close>

fun from_dicts :: "json list \<Rightarrow> book list res" where
  "from_dicts [] = Returns []"
| "from_dicts (d # ds) =
     bind_res (from_dict d) (\<lambda>b. bind_res (from_dicts ds) (\<lambda>bs. Returns (b # bs)))"

text \<open>
  \<^verbatim>\<open>load_books\<close>: the \<^verbatim>\<open>except\<close> clause catches \<^verbatim>\<open>FileNotFoundError\<close> and
  \<^verbatim>\<open>json.JSONDecodeError\<close> and nothing else; a failure inside the comprehension leaves
  \<^verbatim>\<open>self.books\<close> as it was.
\<close>

definition load_books :: "library \<Rightarrow> disk \<Rightarrow> outcome" where
  "load_books lib d =
     (case files d (data_file lib) of
        Missing \<Rightarrow>
          \<lparr>result = Returns None, self = lib\<lparr>books := []\<rparr>, disk = d, printed = []\<rparr>
      | Not_json \<Rightarrow>
          \<lparr>result = Returns None, self = lib\<lparr>books := []\<rparr>, disk = d, printed = []\<rparr>
      | Document data \<Rightarrow>
          (case bind_res (iterate data) from_dicts of
             Returns bs \<Rightarrow>
               \<lparr>result = Returns None, self = lib\<lparr>books := bs\<rparr>, disk = d, printed = []\<rparr>
           | Raises e \<Rightarrow> \<lparr>result = Raises e, self = lib, disk = d, printed = []\<rparr>
           | Untyped \<Rightarrow> \<lparr>result = Untyped, self = lib, disk = d, printed = []\<rparr>))"

text \<open>\<^verbatim>\<open>Library.__init__\<close>.\<close>

definition Library :: "string \<Rightarrow> disk \<Rightarrow> outcome" where
  "Library path d = load_books \<lparr>books = [], data_file = path\<rparr> d"

text \<open>\<^verbatim>\<open>save_books\<close>: the whole list, as an array of dicts, replaces the file.\<close>

definition save_books :: "library \<Rightarrow> disk \<Rightarrow> outcome" where
  "save_books lib d =
     (if writable d (data_file lib)
      then \<lparr>result = Returns None, self = lib,
            disk = d\<lparr>files := (files d)(data_file lib := Document (JArray (map to_dict (books lib))))\<rparr>,
            printed = []\<rparr>
      else \<lparr>result = Raises OSError, self = lib, disk = d, printed = []\<rparr>)"

text \<open>\<^verbatim>\<open>find_book_by_id\<close>: the first book with the id, or \<^verbatim>\<open>None\<close>.\<close>

definition find_book_by_id :: "library \<Rightarrow> int \<Rightarrow> book option" where
  "find_book_by_id lib i = find (\<lambda>b. book_id b = i) (books lib)"

text \<open>
  A method body that has changed the library to \<open>lib\<close>, calls \<^verbatim>\<open>save_books\<close> and then
  prints \<open>msg\<close>: when the save raises, the exception leaves the method and nothing is
  printed.
\<close>

definition save_then_print :: "library \<Rightarrow> disk \<Rightarrow> message \<Rightarrow> outcome" where
  "save_then_print lib d msg =
     (let s = save_books lib d in
      case result s of
        Returns _ \<Rightarrow> s\<lparr>printed := [msg]\<rparr>
      | _ \<Rightarrow> s)"

text \<open>\<^verbatim>\<open>add_book\<close>: the new id is one more than the id of the last book of the list.\<close>

definition add_book :: "string \<Rightarrow> string \<Rightarrow> int \<Rightarrow> library \<Rightarrow> disk \<Rightarrow> outcome" where
  "add_book t a y lib d =
     (let i = (if books lib = [] then 1 else book_id (last (books lib)) + 1);
          new_book = Book i t a y
      in save_then_print (lib\<lparr>books := books lib @ [new_book]\<rparr>) d (Book_added (title new_book) (year new_book)))"

text \<open>
  \<^verbatim>\<open>remove_book\<close>: \<^verbatim>\<open>list.remove\<close> takes out the first element equal to the book found.
  \<^verbatim>\<open>Book\<close> defines no equality, so that is the found object itself, which is the first
  book with the id; \<open>remove1\<close> removes at the same position.
\<close>

definition remove_book :: "int \<Rightarrow> library \<Rightarrow> disk \<Rightarrow> outcome" where
  "remove_book i lib d =
     (case find_book_by_id lib i of
        Some b \<Rightarrow> save_then_print (lib\<lparr>books := remove1 b (books lib)\<rparr>) d (Book_removed i)
      | None \<Rightarrow> \<lparr>result = Returns None, self = lib, disk = d, printed = [Book_not_found i]\<rparr>)"

text \<open>
  \<^verbatim>\<open>book.status = new_status\<close> on the object that \<^verbatim>\<open>find_book_by_id\<close> returned: the
  first book with the id changes in place, inside the list.
\<close>

fun set_status :: "int \<Rightarrow> string \<Rightarrow> book list \<Rightarrow> book list" where
  "set_status i s [] = []"
| "set_status i s (b # bs) =
     (if book_id b = i then b\<lparr>status := s\<rparr> # bs else b # set_status i s bs)"

definition change_status :: "int \<Rightarrow> string \<Rightarrow> library \<Rightarrow> disk \<Rightarrow> outcome" where
  "change_status i new_status lib d =
     (case find_book_by_id lib i of
        Some b \<Rightarrow>
          (if new_status \<in> set [status_available, status_issued]
           then save_then_print (lib\<lparr>books := set_status i new_status (books lib)\<rparr>) d
                  (Status_changed i new_status)
           else \<lparr>result = Returns None, self = lib, disk = d, printed = [Invalid_status]\<rparr>)
      | None \<Rightarrow> \<lparr>result = Returns None, self = lib, disk = d, printed = [Book_not_found i]\<rparr>)"

section \<open>Search and display\<close>

text \<open>
  What \<^verbatim>\<open>search_books\<close> takes from the Python runtime rather than from this
  program: \<^verbatim>\<open>str.lower\<close>; the names that every object resolves besides those its class
  defines (\<^verbatim>\<open>__class__\<close>, \<^verbatim>\<open>__dict__\<close>, \<^verbatim>\<open>__doc__\<close>, ...); and the text that \<^verbatim>\<open>str\<close> gives
  for an attribute that is not one of the five data attributes (for a bound method it
  holds the address of the object).
\<close>

record runtime =
  str_lower :: "string \<Rightarrow> string"
  builtin_attr :: "string \<Rightarrow> bool"
  str_object :: "book \<Rightarrow> string \<Rightarrow> string"

text \<open>\<^verbatim>\<open>str\<close> of an integer: decimal digits, with a minus sign when negative.\<close>

fun str_nat :: "nat \<Rightarrow> string" where
  "str_nat n =
     (if n < 10 then [''0123456789'' ! n]
      else str_nat (n div 10) @ [''0123456789'' ! (n mod 10)])"

declare str_nat.simps [simp del]

definition str_int :: "int \<Rightarrow> string" where
  "str_int i = (if i < 0 then CHR ''-'' # str_nat (nat (- i)) else str_nat (nat i))"

text \<open>
  \<^verbatim>\<open>getattr(book, field)\<close>: the five attributes set by \<^verbatim>\<open>__init__\<close>, then the three
  functions that the class body defines, then what the runtime resolves; any other name
  raises \<^verbatim>\<open>AttributeError\<close>.
\<close>

datatype attr = Attr_int int | Attr_str string | Attr_other string

definition getattr :: "runtime \<Rightarrow> book \<Rightarrow> string \<Rightarrow> attr res" where
  "getattr rt b field =
     (if field = ''id'' then Returns (Attr_int (book_id b))
      else if field = ''title'' then Returns (Attr_str (title b))
      else if field = ''author'' then Returns (Attr_str (author b))
      else if field = ''year'' then Returns (Attr_int (year b))
      else if field = ''status'' then Returns (Attr_str (status b))
      else if field \<in> set [''__init__'', ''to_dict'', ''from_dict''] then Returns (Attr_other field)
      else if builtin_attr rt field then Returns (Attr_other field)
      else Raises (AttributeError field))"

fun str_attr :: "runtime \<Rightarrow> book \<Rightarrow> attr \<Rightarrow> string" where
  "str_attr rt b (Attr_int i) = str_int i"
| "str_attr rt b (Attr_str s) = s"
| "str_attr rt b (Attr_other n) = str_object rt b n"

text \<open>
  The condition of the comprehension,
  \<^verbatim>\<open>keyword.lower() in str(getattr(book, field)).lower()\<close>; \<^verbatim>\<open>in\<close> on two strings tests
  for a contiguous substring, which is \<open>sublist\<close>.
\<close>

definition matches :: "runtime \<Rightarrow> string \<Rightarrow> string \<Rightarrow> book \<Rightarrow> bool res" where
  "matches rt keyword field b =
     bind_res (getattr rt b field) (\<lambda>a.
       Returns (sublist (str_lower rt keyword) (str_lower rt (str_attr rt b a))))"

text \<open>The comprehension itself, in list order; the first exception ends it.\<close>

fun search_results :: "runtime \<Rightarrow> string \<Rightarrow> string \<Rightarrow> book list \<Rightarrow> book list res" where
  "search_results rt keyword field [] = Returns []"
| "search_results rt keyword field (b # bs) =
     bind_res (matches rt keyword field b) (\<lambda>m.
     bind_res (search_results rt keyword field bs) (\<lambda>r.
       Returns (if m then b # r else r)))"

text \<open>
  \<^verbatim>\<open>display_books\<close>: \<^verbatim>\<open>books or self.books\<close> takes the library's list when the argument
  is \<^verbatim>\<open>None\<close> or empty.
\<close>

definition display_books :: "book list option \<Rightarrow> library \<Rightarrow> message list" where
  "display_books arg lib =
     (let bs = (case arg of None \<Rightarrow> books lib | Some l \<Rightarrow> if l = [] then books lib else l)
      in if bs = [] then [Library_empty] else map Book_line bs)"

definition search_books :: "runtime \<Rightarrow> string \<Rightarrow> string \<Rightarrow> library \<Rightarrow> disk \<Rightarrow> outcome" where
  "search_books rt keyword field lib d =
     (case search_results rt keyword field (books lib) of
        Returns results \<Rightarrow>
          \<lparr>result = Returns None, self = lib, disk = d,
           printed = (if results \<noteq> [] then display_books (Some results) lib
                      else [Nothing_found keyword])\<rparr>
      | Raises e \<Rightarrow> \<lparr>result = Raises e, self = lib, disk = d, printed = []\<rparr>
      | Untyped \<Rightarrow> \<lparr>result = Untyped, self = lib, disk = d, printed = []\<rparr>)"

text \<open>
  An instance of the runtime for ASCII text, for the examples: lower-casing of the
  letters A to Z, a few of the names every object has, and a stand-in for the text of a
  method.
\<close>

definition ascii_lower :: "char \<Rightarrow> char" where
  "ascii_lower c =
     (let n = (of_char c :: nat) in if 65 \<le> n \<and> n \<le> 90 then char_of (n + 32) else c)"

definition ascii_runtime :: runtime where
  "ascii_runtime =
     \<lparr>str_lower = map ascii_lower,
      builtin_attr = (\<lambda>n. n \<in> set [''__class__'', ''__dict__'', ''__doc__'', ''__module__'']),
      str_object = (\<lambda>b n. ''<attribute '' @ n @ ''>'')\<rparr>"

text \<open>A disk with no file on it, where every path can be written.\<close>

definition empty_disk :: disk where
  "empty_disk = \<lparr>files = (\<lambda>p. Missing), writable = (\<lambda>p. True)\<rparr>"

section \<open>What the specification says, and example values\<close>

text \<open>
  The rule of the spec for the id of a new record: one more than the largest id present,
  or 1 for an empty catalog; and the ids that it gives after \<open>n\<close> records are added.
\<close>

definition spec_next_id :: "int list \<Rightarrow> int" where
  "spec_next_id ids = (if ids = [] then 1 else Max (set ids) + 1)"

fun spec_add_ids :: "int list \<Rightarrow> nat \<Rightarrow> int list" where
  "spec_add_ids ids 0 = ids"
| "spec_add_ids ids (Suc n) = spec_add_ids (ids @ [spec_next_id ids]) n"

text \<open>The last id of a list of ids is its largest (or the list is empty).\<close>

definition last_is_max :: "int list \<Rightarrow> bool" where
  "last_is_max ids = (ids = [] \<or> last ids = Max (set ids))"

text \<open>
  A sequence of calls of \<^verbatim>\<open>add_book\<close>, each on the library and the disk that the call
  before it left.
\<close>

fun add_all :: "(string \<times> string \<times> int) list \<Rightarrow> library \<Rightarrow> disk \<Rightarrow> library \<times> disk" where
  "add_all [] lib d = (lib, d)"
| "add_all ((t, a, y) # rest) lib d =
     (let out = add_book t a y lib d in add_all rest (self out) (disk out))"

text \<open>The backing file holds the serialization of the whole list of the library.\<close>

definition persisted :: "outcome \<Rightarrow> bool" where
  "persisted out =
     (files (disk out) (data_file (self out)) = Document (JArray (map to_dict (books (self out)))))"

text \<open>
  The spec's search: the textual rendering of one of the fields title, author and year,
  and a record matching when the keyword is a substring of it once both are lower-cased.
\<close>

definition field_text :: "string \<Rightarrow> book \<Rightarrow> string" where
  "field_text field b =
     (if field = ''title'' then title b
      else if field = ''author'' then author b
      else if field = ''year'' then str_int (year b)
      else [])"

definition spec_match :: "runtime \<Rightarrow> string \<Rightarrow> string \<Rightarrow> book \<Rightarrow> bool" where
  "spec_match rt keyword field b =
     sublist (str_lower rt keyword) (str_lower rt (field_text field b))"

text \<open>
  "Contains the keyword as a case-insensitive substring", read character by character:
  at some position of the string the characters of the keyword follow, each equal to the
  character of the string up to case (\<open>f\<close> lower-cases one character).
\<close>

fun ci_prefix :: "(char \<Rightarrow> char) \<Rightarrow> string \<Rightarrow> string \<Rightarrow> bool" where
  "ci_prefix f [] str = True"
| "ci_prefix f (k # ks) [] = False"
| "ci_prefix f (k # ks) (c # cs) = (f k = f c \<and> ci_prefix f ks cs)"

fun ci_substring :: "(char \<Rightarrow> char) \<Rightarrow> string \<Rightarrow> string \<Rightarrow> bool" where
  "ci_substring f keyword [] = ci_prefix f keyword []"
| "ci_substring f keyword (c # cs) = (ci_prefix f keyword (c # cs) \<or> ci_substring f keyword cs)"

definition spec_ci_match :: "(char \<Rightarrow> char) \<Rightarrow> string \<Rightarrow> string \<Rightarrow> book \<Rightarrow> bool" where
  "spec_ci_match f keyword field b = ci_substring f keyword (field_text field b)"

text \<open>Libraries and a disk for the examples.\<close>

definition three_adds :: "(string \<times> string \<times> int) list" where
  "three_adds = [(''Ulysses'', ''Joyce'', 1922), (''Walden'', ''Thoreau'', 1854), (''Hamlet'', ''Shakespeare'', 1603)]"

definition no_books :: library where
  "no_books = \<lparr>books = [], data_file = ''library.json''\<rparr>"

definition one_book :: library where
  "one_book = \<lparr>books = [Book 1 ''Dune'' ''Herbert'' 1965], data_file = ''library.json''\<rparr>"

definition two_books :: library where
  "two_books = \<lparr>books = [Book 1 ''Dune'' ''Herbert'' 1965, Book 2 ''Emma'' ''Austen'' 1815],
                data_file = ''library.json''\<rparr>"

definition unordered_books :: library where
  "unordered_books = \<lparr>books = [Book 5 ''Dune'' ''Herbert'' 1965, Book 2 ''Emma'' ''Austen'' 1815],
                data_file = ''library.json''\<rparr>"

definition python_books :: library where
  "python_books =
     \<lparr>books = [Book 1 ''Python Basics'' ''Author C'' 2021,
               Book 2 ''Advanced Python'' ''Author D'' 2020,
               Book 3 ''Cooking'' ''Author E'' 2019],
      data_file = ''library.json''\<rparr>"

text \<open>A disk whose file is a JSON array with one object that has only the key \<^verbatim>\<open>id\<close>.\<close>

definition broken_disk :: disk where
  "broken_disk =
     \<lparr>files = (\<lambda>p. if p = ''library.json'' then Document (JArray [JObject [(''id'', JInt 1)]])
                  else Missing),
      writable = (\<lambda>p. True)\<rparr>"

section \<open>Auxiliary facts\<close>

lemma from_dict_to_dict: "from_dict (to_dict b) = Returns b"
  by (simp add: from_dict_def to_dict_def)

lemma from_dicts_to_dicts: "from_dicts (map to_dict bs) = Returns bs"
  by (induction bs) (simp_all add: from_dict_to_dict)

lemma load_books_silent:
  "files d (data_file lib) = Missing \<or> files d (data_file lib) = Not_json \<Longrightarrow>
   load_books lib d = \<lparr>result = Returns None, self = lib\<lparr>books := []\<rparr>, disk = d, printed = []\<rparr>"
  by (auto simp: load_books_def)

lemma save_then_print_self [simp]: "self (save_then_print lib d m) = lib"
  by (simp add: save_then_print_def save_books_def Let_def)

lemma save_then_print_result:
  "result (save_then_print lib d m) = (if writable d (data_file lib) then Returns None else Raises OSError)"
  by (simp add: save_then_print_def save_books_def Let_def)

lemma save_then_print_printed:
  "printed (save_then_print lib d m) = (if writable d (data_file lib) then [m] else [])"
  by (simp add: save_then_print_def save_books_def Let_def)

lemma save_then_print_disk:
  "disk (save_then_print lib d m) =
     (if writable d (data_file lib)
      then d\<lparr>files := (files d)(data_file lib := Document (JArray (map to_dict (books lib))))\<rparr>
      else d)"
  by (simp add: save_then_print_def save_books_def Let_def)

lemma save_then_print_persisted:
  "result (save_then_print lib d m) = Returns r \<Longrightarrow> persisted (save_then_print lib d m)"
  by (simp add: persisted_def save_then_print_result save_then_print_disk split: if_splits)

lemma add_book_books:
  "books (self (add_book t a y lib d)) =
     books lib @ [Book (if books lib = [] then 1 else book_id (last (books lib)) + 1) t a y]"
  by (simp add: add_book_def Let_def)

lemma add_book_ids:
  "map book_id (books (self (add_book t a y lib d))) =
     map book_id (books lib) @
       [if books lib = [] then 1 else last (map book_id (books lib)) + 1]"
  by (simp add: add_book_books Book_def last_map)

lemma find_book_by_id_None:
  "find_book_by_id lib i = None \<longleftrightarrow> i \<notin> set (map book_id (books lib))"
  by (auto simp: find_book_by_id_def find_None_iff)

text \<open>In an ascending list the last element is the largest.\<close>

lemma sorted_last_Max:
  fixes xs :: "int list"
  shows "sorted xs \<Longrightarrow> xs \<noteq> [] \<Longrightarrow> last xs = Max (set xs)"
proof (induction xs)
  case Nil
  then show ?case by simp
next
  case (Cons x xs)
  show ?case
  proof (cases "xs = []")
    case True
    then show ?thesis by simp
  next
    case False
    from Cons False have eq: "last xs = Max (set xs)" by simp
    from False have "last xs \<in> set xs" by simp
    with Cons.prems have "x \<le> last xs" by simp
    with eq have "max x (Max (set xs)) = Max (set xs)" by simp
    with False eq show ?thesis by simp
  qed
qed

lemma sorted_last_is_max:
  fixes xs :: "int list"
  shows "sorted xs \<Longrightarrow> last_is_max xs"
  using sorted_last_Max [of xs] by (auto simp: last_is_max_def)

text \<open>
  Where the last id is the largest, \<^verbatim>\<open>add_book\<close> follows the spec's rule, and the new
  last id is again the largest; so does every sequence of Adds from there.
\<close>

lemma add_book_ids_last_is_max:
  assumes "last_is_max (map book_id (books lib))"
  shows "map book_id (books (self (add_book t a y lib d))) =
           map book_id (books lib) @ [spec_next_id (map book_id (books lib))]"
    and "last_is_max (map book_id (books (self (add_book t a y lib d))))"
proof -
  let ?ids = "map book_id (books lib)"
  have last: "last ?ids = Max (set ?ids)" if "books lib \<noteq> []"
    using assms that by (simp add: last_is_max_def)
  show new: "map book_id (books (self (add_book t a y lib d))) = ?ids @ [spec_next_id ?ids]"
    using last by (simp add: add_book_ids spec_next_id_def)
  have "Max (set (?ids @ [spec_next_id ?ids])) = spec_next_id ?ids"
  proof (cases "books lib = []")
    case True
    then show ?thesis by (simp add: spec_next_id_def)
  next
    case False
    then have "Max (insert (Max (set ?ids) + 1) (set ?ids)) = max (Max (set ?ids) + 1) (Max (set ?ids))"
      by (subst Max_insert) simp_all
    with False show ?thesis by (simp add: spec_next_id_def del: set_map)
  qed
  then show "last_is_max (map book_id (books (self (add_book t a y lib d))))"
    unfolding new by (simp add: last_is_max_def del: set_map set_append)
qed

lemma add_all_follows_spec:
  "last_is_max (map book_id (books lib)) \<Longrightarrow>
   map book_id (books (fst (add_all args lib d))) =
     spec_add_ids (map book_id (books lib)) (length args)"
proof (induction args arbitrary: lib d)
  case Nil
  then show ?case by simp
next
  case (Cons x args)
  obtain t a y where x: "x = (t, a, y)" by (cases x)
  show ?case
    using Cons.IH [OF add_book_ids_last_is_max(2) [OF Cons.prems]]
      add_book_ids_last_is_max(1) [OF Cons.prems]
    by (simp add: x Let_def)
qed

lemma add_all_follows_spec_example:
  "map book_id (books (fst (add_all [(''Ulysses'', ''Joyce'', 1922), (''Walden'', ''Thoreau'', 1854)]
          two_books empty_disk))) = [1, 2, 3, 4]"
proof -
  have h: "last_is_max (map book_id (books two_books))"
    by (simp add: two_books_def Book_def last_is_max_def)
  have ids: "map book_id (books two_books) = [1, 2]"
    by (simp add: two_books_def Book_def)
  have spec: "spec_add_ids [1, 2] (Suc (Suc 0)) = [1, 2, 3, 4]"
    by (simp add: spec_next_id_def)
  have "map book_id (books (fst (add_all [(''Ulysses'', ''Joyce'', 1922), (''Walden'', ''Thoreau'', 1854)]
          two_books empty_disk))) = spec_add_ids [1, 2] (Suc (Suc 0))"
    using add_all_follows_spec [OF h, of "[(''Ulysses'', ''Joyce'', 1922), (''Walden'', ''Thoreau'', 1854)]" empty_disk]
    by (simp only: ids list.size length_Cons One_nat_def add_0 add_Suc_right add_Suc plus_nat.simps)
  with spec show ?thesis by (simp only:)
qed

text \<open>With distinct ids, no book with the id is left once the first one is taken out.\<close>

lemma find_remove1_distinct:
  "distinct (map book_id bs) \<Longrightarrow> find (\<lambda>b. book_id b = i) bs = Some b \<Longrightarrow>
   find (\<lambda>b. book_id b = i) (remove1 b bs) = None"
proof (induction bs)
  case Nil
  then show ?case by simp
next
  case (Cons x bs)
  show ?case
  proof (cases "book_id x = i")
    case True
    with Cons.prems have "b = x" by simp
    moreover from Cons.prems True have "i \<notin> book_id ` set bs" by auto
    ultimately show ?thesis by (auto simp: find_None_iff)
  next
    case False
    with Cons.prems have f: "find (\<lambda>b. book_id b = i) bs = Some b" by simp
    then have "book_id b = i" by (auto simp: find_Some_iff)
    with False have "x \<noteq> b" by auto
    with Cons f False show ?thesis by simp
  qed
qed

lemma lost_not_status: "''lost'' \<noteq> status_available" "''lost'' \<noteq> status_issued"
  by (simp_all add: status_available_def status_issued_def)

text \<open>
  For the fields title, author and year the condition of the comprehension never raises
  and is the spec's match, so the comprehension is a filter.
\<close>

lemma getattr_data_field:
  "field \<in> {''title'', ''author'', ''year''} \<Longrightarrow>
   bind_res (getattr rt b field) (\<lambda>a. Returns (str_attr rt b a)) = Returns (field_text field b)"
  by (auto simp: getattr_def field_text_def)

lemma matches_data_field:
  "field \<in> {''title'', ''author'', ''year''} \<Longrightarrow>
   matches rt keyword field b = Returns (spec_match rt keyword field b)"
  by (auto simp: matches_def getattr_def field_text_def spec_match_def)

lemma search_results_data_field:
  "field \<in> {''title'', ''author'', ''year''} \<Longrightarrow>
   search_results rt keyword field bs = Returns (filter (spec_match rt keyword field) bs)"
  by (induction bs) (simp_all add: matches_data_field)

text \<open>An attribute lookup that raises on the first book ends the comprehension.\<close>

lemma search_results_unknown_field:
  assumes "getattr rt b field = Raises e"
  shows "search_results rt keyword field (b # bs) = Raises e"
  using assms by (simp add: matches_def)

text \<open>
  Where lower-casing works character by character, the substring test on the lower-cased
  strings is the case-insensitive substring of the spec.
\<close>

lemma prefix_map_ci: "prefix (map f keyword) (map f str) \<longleftrightarrow> ci_prefix f keyword str"
  by (induction f keyword str rule: ci_prefix.induct) simp_all

lemma sublist_map_ci: "sublist (map f keyword) (map f str) \<longleftrightarrow> ci_substring f keyword str"
proof (induction str)
  case Nil
  then show ?case by (cases keyword) simp_all
next
  case (Cons c cs)
  have "sublist (map f keyword) (map f (c # cs)) \<longleftrightarrow>
        prefix (map f keyword) (map f (c # cs)) \<or> sublist (map f keyword) (map f cs)"
    by (simp add: sublist_Cons_right)
  with Cons show ?case by (simp only: prefix_map_ci ci_substring.simps)
qed

lemma spec_match_ci:
  "str_lower rt = map f \<Longrightarrow> spec_match rt keyword field = spec_ci_match f keyword field"
  by (rule ext) (simp add: spec_match_def spec_ci_match_def sublist_map_ci)

section \<open>The claims\<close>

subsection \<open>C1: the id that Add assigns\<close>

text \<open>
  C1 at a failing input. \<^verbatim>\<open>add_book\<close> takes one more than the id of the last book of the
  list, not one more than the largest id. On a library loaded with the ids 5 and 2, in
  that order (they are distinct), the first Add gives the id 3 where the rule of the spec
  gives 6, and three Adds give the ids 5, 2, 3, 4, 5: the id 5 twice, against the
  docstring of \<^verbatim>\<open>Book\<close>, which calls the id unique. Where the last id is the largest the
  code and the rule agree (\<open>add_all_follows_spec\<close>).
\<close>

theorem add_book_id_not_max:
  "distinct (map book_id (books unordered_books))
   \<and> book_id (last (books (self (add_book ''Ulysses'' ''Joyce'' 1922 unordered_books empty_disk)))) = 3
   \<and> spec_next_id (map book_id (books unordered_books)) = 6
   \<and> map book_id (books (fst (add_all three_adds unordered_books empty_disk))) = [5, 2, 3, 4, 5]"
proof -
  have ids: "map book_id (books unordered_books) = [5, 2]"
    by (simp add: unordered_books_def Book_def)
  have b: "books unordered_books \<noteq> []" by (simp add: unordered_books_def)
  have l: "book_id (last (books unordered_books)) = 2" by (simp add: unordered_books_def Book_def)
  have "map book_id (books (fst (add_all three_adds unordered_books empty_disk))) = [5, 2, 3, 4, 5]"
    by (simp add: three_adds_def Let_def add_book_books unordered_books_def Book_def)
  then show ?thesis
    by (simp add: ids add_book_books Book_def spec_next_id_def b l)
qed

subsection \<open>C2: loading a file with malformed content\<close>

text \<open>
  C2 at a failing input. The file holds the JSON array with the single object
  \<^verbatim>\<open>{"id": 1}\<close>. The text parses, so no \<^verbatim>\<open>JSONDecodeError\<close> is raised; \<^verbatim>\<open>from_dict\<close>
  raises \<^verbatim>\<open>KeyError\<close> for the key \<^verbatim>\<open>title\<close>, which the \<^verbatim>\<open>except\<close> clause does not catch:
  constructing the library raises instead of giving an empty library.
\<close>

theorem load_books_missing_key_raises:
  "result (Library ''library.json'' broken_disk) = Raises (KeyError ''title'')"
  by (simp add: Library_def load_books_def broken_disk_def from_dict_def)

subsection \<open>C3: save, then load\<close>

text \<open>
  C3. When \<^verbatim>\<open>save_books\<close> returns, a library constructed afresh on the same path loads
  without error and holds the same books, with the same ids, titles, authors, years and
  statuses, in the same order.
\<close>

theorem save_load_roundtrip:
  assumes "result (save_books lib d) = Returns r"
  shows "result (Library (data_file lib) (disk (save_books lib d))) = Returns None
       \<and> books (self (Library (data_file lib) (disk (save_books lib d)))) = books lib"
proof -
  from assms have w: "writable d (data_file lib)"
    by (simp add: save_books_def split: if_splits)
  then have "files (disk (save_books lib d)) (data_file lib) = Document (JArray (map to_dict (books lib)))"
    by (simp add: save_books_def)
  then show ?thesis
    by (simp add: Library_def load_books_def from_dicts_to_dicts)
qed

theorem save_load_roundtrip_witness:
  "result (save_books two_books empty_disk) = Returns None
   \<and> result (Library ''library.json'' (disk (save_books two_books empty_disk))) = Returns None
   \<and> books (self (Library ''library.json'' (disk (save_books two_books empty_disk)))) =
       [Book 1 ''Dune'' ''Herbert'' 1965, Book 2 ''Emma'' ''Austen'' 1815]"
proof -
  have h: "result (save_books two_books empty_disk) = Returns None"
    by (simp add: save_books_def two_books_def empty_disk_def)
  show ?thesis
    using h save_load_roundtrip [OF h] by (simp add: two_books_def)
qed

subsection \<open>C4: a mutation that returns has written the file\<close>

text \<open>
  C4. When \<^verbatim>\<open>add_book\<close>, \<^verbatim>\<open>remove_book\<close> on an id that is present, or \<^verbatim>\<open>change_status\<close> on
  an id that is present with one of the two valid statuses returns (raises nothing), the
  backing file holds the serialization of the whole list as the library now has it. The
  write is part of the call: the disk is the one that the call leaves behind.
\<close>

theorem mutation_persisted:
  "(result (add_book t a y lib d) = Returns r1 \<longrightarrow> persisted (add_book t a y lib d))
   \<and> (i \<in> set (map book_id (books lib)) \<longrightarrow> result (remove_book i lib d) = Returns r2 \<longrightarrow>
        persisted (remove_book i lib d))
   \<and> (i \<in> set (map book_id (books lib)) \<longrightarrow> s \<in> {status_available, status_issued} \<longrightarrow>
        result (change_status i s lib d) = Returns r3 \<longrightarrow> persisted (change_status i s lib d))"
proof (intro conjI impI)
  assume "result (add_book t a y lib d) = Returns r1"
  then show "persisted (add_book t a y lib d)"
    by (simp add: add_book_def Let_def save_then_print_persisted)
next
  assume "i \<in> set (map book_id (books lib))" and r: "result (remove_book i lib d) = Returns r2"
  then obtain b where "find_book_by_id lib i = Some b"
    using find_book_by_id_None [of lib i] by auto
  with r show "persisted (remove_book i lib d)"
    by (simp add: remove_book_def save_then_print_persisted)
next
  assume "i \<in> set (map book_id (books lib))" and s: "s \<in> {status_available, status_issued}"
    and r: "result (change_status i s lib d) = Returns r3"
  then obtain b where "find_book_by_id lib i = Some b"
    using find_book_by_id_None [of lib i] by auto
  with r s show "persisted (change_status i s lib d)"
    by (auto simp: change_status_def save_then_print_persisted)
qed

theorem mutation_persisted_witness:
  "result (add_book ''Emma'' ''Austen'' 1815 one_book empty_disk) = Returns None
   \<and> persisted (add_book ''Emma'' ''Austen'' 1815 one_book empty_disk)
   \<and> 1 \<in> set (map book_id (books one_book))
   \<and> result (remove_book 1 one_book empty_disk) = Returns None
   \<and> persisted (remove_book 1 one_book empty_disk)
   \<and> status_issued \<in> {status_available, status_issued}
   \<and> result (change_status 1 status_issued one_book empty_disk) = Returns None
   \<and> persisted (change_status 1 status_issued one_book empty_disk)"
proof -
  have w: "writable empty_disk ''library.json''" by (simp add: empty_disk_def)
  have f: "find_book_by_id one_book 1 = Some (Book 1 ''Dune'' ''Herbert'' 1965)"
    by (simp add: find_book_by_id_def one_book_def Book_def)
  have df: "data_file one_book = ''library.json''" by (simp add: one_book_def)
  have h1: "result (add_book ''Emma'' ''Austen'' 1815 one_book empty_disk) = Returns None"
    using w df by (simp add: add_book_def Let_def save_then_print_result)
  have h2: "1 \<in> set (map book_id (books one_book))"
    by (simp add: one_book_def Book_def)
  have h3: "result (remove_book 1 one_book empty_disk) = Returns None"
    using w f df by (simp add: remove_book_def save_then_print_result)
  have h4: "status_issued \<in> {status_available, status_issued}" by simp
  have h5: "result (change_status 1 status_issued one_book empty_disk) = Returns None"
    using w f df by (simp add: change_status_def save_then_print_result)
  show ?thesis
    using h1 h2 h3 h4 h5
      mutation_persisted [of "''Emma''" "''Austen''" 1815 one_book empty_disk None 1 None
        status_issued None]
    by blast
qed

subsection \<open>C5: an invalid status\<close>

text \<open>
  C5, as the code has it. \<^verbatim>\<open>change_status\<close> looks the id up before it looks at the
  status. With a status that is neither of the two valid ones, nothing changes in the
  library, the file is not written and nothing is raised; the line printed is the
  invalid-status one when the id is present, and the not-found one when it is absent.
\<close>

theorem change_status_invalid:
  assumes "new_status \<noteq> status_available" and "new_status \<noteq> status_issued"
  shows "change_status i new_status lib d =
           \<lparr>result = Returns None, self = lib, disk = d,
            printed = (if i \<in> set (map book_id (books lib)) then [Invalid_status]
                       else [Book_not_found i])\<rparr>"
proof (cases "find_book_by_id lib i")
  case None
  then show ?thesis
    using find_book_by_id_None [of lib i] by (simp add: change_status_def)
next
  case (Some b)
  then show ?thesis
    using assms find_book_by_id_None [of lib i] by (simp add: change_status_def)
qed

theorem change_status_invalid_witness:
  "''lost'' \<noteq> status_available \<and> ''lost'' \<noteq> status_issued
   \<and> change_status 1 ''lost'' one_book empty_disk =
       \<lparr>result = Returns None, self = one_book, disk = empty_disk, printed = [Invalid_status]\<rparr>"
  using lost_not_status change_status_invalid [OF lost_not_status, of 1 one_book empty_disk]
  by (simp add: one_book_def Book_def)

text \<open>
  C5 as stated fails for an id that is absent: with the invalid status \<^verbatim>\<open>lost\<close> and the
  id 999 on a library that has only the id 1, the line printed is the not-found one.
\<close>

theorem change_status_absent_id_reports_not_found:
  "printed (change_status 999 ''lost'' one_book empty_disk) = [Book_not_found 999]
   \<and> printed (change_status 999 ''lost'' one_book empty_disk) \<noteq> [Invalid_status]"
  by (simp add: change_status_def find_book_by_id_def one_book_def Book_def)

subsection \<open>C6: removing an id that is absent\<close>

text \<open>
  C6. For an id that no book of the library has, \<^verbatim>\<open>remove_book\<close> raises nothing, prints
  the not-found line and leaves the library (the same books in the same order) and the
  disk as they were.
\<close>

theorem remove_book_absent:
  assumes "i \<notin> set (map book_id (books lib))"
  shows "remove_book i lib d =
           \<lparr>result = Returns None, self = lib, disk = d, printed = [Book_not_found i]\<rparr>"
  using assms find_book_by_id_None [of lib i] by (simp add: remove_book_def)

theorem remove_book_absent_witness:
  "999 \<notin> set (map book_id (books two_books))
   \<and> remove_book 999 two_books empty_disk =
       \<lparr>result = Returns None, self = two_books, disk = empty_disk, printed = [Book_not_found 999]\<rparr>"
proof -
  have h: "999 \<notin> set (map book_id (books two_books))"
    by (simp add: two_books_def Book_def)
  show ?thesis using h remove_book_absent [OF h, of empty_disk] by simp
qed

subsection \<open>C7: remove, then find\<close>

text \<open>
  C7. In a catalog, where the ids are pairwise distinct (the invariant of the data
  model), after \<^verbatim>\<open>remove_book\<close> on an id that is present \<^verbatim>\<open>find_book_by_id\<close> returns
  \<^verbatim>\<open>None\<close> for that id (also when the save inside \<^verbatim>\<open>remove_book\<close> raised).
\<close>

theorem remove_then_find:
  assumes "distinct (map book_id (books lib))" and "i \<in> set (map book_id (books lib))"
  shows "find_book_by_id (self (remove_book i lib d)) i = None"
proof -
  from assms(2) obtain b where b: "find_book_by_id lib i = Some b"
    using find_book_by_id_None [of lib i] by auto
  then have "self (remove_book i lib d) = lib\<lparr>books := remove1 b (books lib)\<rparr>"
    by (simp add: remove_book_def)
  with b assms(1) show ?thesis
    by (simp add: find_book_by_id_def find_remove1_distinct)
qed

theorem remove_then_find_witness:
  "distinct (map book_id (books two_books)) \<and> 1 \<in> set (map book_id (books two_books))
   \<and> find_book_by_id (self (remove_book 1 two_books empty_disk)) 1 = None"
proof -
  have h1: "distinct (map book_id (books two_books))"
    by (simp add: two_books_def Book_def)
  have h2: "1 \<in> set (map book_id (books two_books))"
    by (simp add: two_books_def Book_def)
  show ?thesis using h1 h2 remove_then_find [OF h1 h2, of empty_disk] by simp
qed

subsection \<open>C8: search\<close>

text \<open>
  C8, as the code has it. For each of the fields title, author and year, \<^verbatim>\<open>search_books\<close>
  raises nothing, changes nothing and returns \<^verbatim>\<open>None\<close>; it selects exactly the books for
  which the lower-cased keyword is a substring of the lower-cased text of the field, in
  the order of the list, and prints one line for each of them, or the nothing-found line
  when there is none. Where lower-casing works character by character (as for ASCII
  text), these are the books whose field contains the keyword as a case-insensitive
  substring. The empty keyword selects every book, given that lower-casing the empty
  string gives the empty string. With the keyword \<^verbatim>\<open>Python\<close> on the field title over the
  titles Python Basics, Advanced Python and Cooking, the first two are selected, in order.
\<close>

theorem search_books_matches:
  "(field \<in> {''title'', ''author'', ''year''} \<longrightarrow>
      search_books rt keyword field lib d =
        \<lparr>result = Returns None, self = lib, disk = d,
         printed = (if filter (spec_match rt keyword field) (books lib) = []
                    then [Nothing_found keyword]
                    else map Book_line (filter (spec_match rt keyword field) (books lib)))\<rparr>)
   \<and> (str_lower rt = map f \<longrightarrow>
        filter (spec_match rt keyword field) (books lib) =
        filter (spec_ci_match f keyword field) (books lib))
   \<and> (str_lower rt [] = [] \<longrightarrow> filter (spec_match rt [] field) (books lib) = books lib)
   \<and> printed (search_books ascii_runtime ''Python'' ''title'' python_books d) =
       [Book_line (Book 1 ''Python Basics'' ''Author C'' 2021),
        Book_line (Book 2 ''Advanced Python'' ''Author D'' 2020)]"
proof (intro conjI impI)
  assume f: "field \<in> {''title'', ''author'', ''year''}"
  show "search_books rt keyword field lib d =
        \<lparr>result = Returns None, self = lib, disk = d,
         printed = (if filter (spec_match rt keyword field) (books lib) = []
                    then [Nothing_found keyword]
                    else map Book_line (filter (spec_match rt keyword field) (books lib)))\<rparr>"
    by (simp add: search_books_def search_results_data_field [OF f] display_books_def)
next
  assume l: "str_lower rt = map f"
  show "filter (spec_match rt keyword field) (books lib) =
        filter (spec_ci_match f keyword field) (books lib)"
    by (simp only: spec_match_ci [OF l])
next
  assume "str_lower rt [] = []"
  then show "filter (spec_match rt [] field) (books lib) = books lib"
    by (simp add: spec_match_def)
next
  have t: "''title'' \<in> {''title'', ''author'', ''year''}" by simp
  have l: "str_lower ascii_runtime = map ascii_lower" by (simp add: ascii_runtime_def)
  have m1: "spec_match ascii_runtime ''Python'' ''title'' (Book 1 ''Python Basics'' ''Author C'' 2021)"
    unfolding spec_match_def l field_text_def Book_def by code_simp
  have m2: "spec_match ascii_runtime ''Python'' ''title'' (Book 2 ''Advanced Python'' ''Author D'' 2020)"
    unfolding spec_match_def l field_text_def Book_def by code_simp
  have m3: "\<not> spec_match ascii_runtime ''Python'' ''title'' (Book 3 ''Cooking'' ''Author E'' 2019)"
    unfolding spec_match_def l field_text_def Book_def by code_simp
  show "printed (search_books ascii_runtime ''Python'' ''title'' python_books d) =
       [Book_line (Book 1 ''Python Basics'' ''Author C'' 2021),
        Book_line (Book 2 ''Advanced Python'' ''Author D'' 2020)]"
  proof -
    have bs: "books python_books =
        [Book 1 ''Python Basics'' ''Author C'' 2021, Book 2 ''Advanced Python'' ''Author D'' 2020,
         Book 3 ''Cooking'' ''Author E'' 2019]"
      by (simp add: python_books_def)
    have "search_results ascii_runtime ''Python'' ''title'' (books python_books) =
        Returns (filter (spec_match ascii_runtime ''Python'' ''title'') (books python_books))"
      by (rule search_results_data_field [OF t])
    also have "filter (spec_match ascii_runtime ''Python'' ''title'') (books python_books) =
        [Book 1 ''Python Basics'' ''Author C'' 2021, Book 2 ''Advanced Python'' ''Author D'' 2020]"
      by (simp only: bs filter.simps m1 m2 m3 if_True if_False)
    finally show ?thesis
      by (simp add: search_books_def display_books_def)
  qed
qed

text \<open>
  With ASCII lower-casing: a keyword in another case than the titles, keywords on the
  field year, a keyword that no title has, and the empty keyword.
\<close>

theorem search_books_matches_witness:
  "''title'' \<in> {''title'', ''author'', ''year''} \<and> ''year'' \<in> {''title'', ''author'', ''year''}
   \<and> str_lower ascii_runtime = map ascii_lower \<and> str_lower ascii_runtime [] = []
   \<and> search_books ascii_runtime ''PYTHON'' ''title'' python_books empty_disk =
       \<lparr>result = Returns None, self = python_books, disk = empty_disk,
        printed = [Book_line (Book 1 ''Python Basics'' ''Author C'' 2021),
                   Book_line (Book 2 ''Advanced Python'' ''Author D'' 2020)]\<rparr>
   \<and> search_books ascii_runtime ''202'' ''year'' python_books empty_disk =
       \<lparr>result = Returns None, self = python_books, disk = empty_disk,
        printed = [Book_line (Book 1 ''Python Basics'' ''Author C'' 2021),
                   Book_line (Book 2 ''Advanced Python'' ''Author D'' 2020)]\<rparr>
   \<and> search_books ascii_runtime ''2019'' ''year'' python_books empty_disk =
       \<lparr>result = Returns None, self = python_books, disk = empty_disk,
        printed = [Book_line (Book 3 ''Cooking'' ''Author E'' 2019)]\<rparr>
   \<and> search_books ascii_runtime ''java'' ''title'' python_books empty_disk =
       \<lparr>result = Returns None, self = python_books, disk = empty_disk,
        printed = [Nothing_found ''java'']\<rparr>
   \<and> search_books ascii_runtime [] ''title'' python_books empty_disk =
       \<lparr>result = Returns None, self = python_books, disk = empty_disk,
        printed = map Book_line (books python_books)\<rparr>"
proof -
  have t: "''title'' \<in> {''title'', ''author'', ''year''}" by simp
  have y: "''year'' \<in> {''title'', ''author'', ''year''}" by simp
  have l: "str_lower ascii_runtime = map ascii_lower" by (simp add: ascii_runtime_def)
  have e: "str_lower ascii_runtime [] = []" by (simp add: ascii_runtime_def)
  have bs: "books python_books =
      [Book 1 ''Python Basics'' ''Author C'' 2021, Book 2 ''Advanced Python'' ''Author D'' 2020,
       Book 3 ''Cooking'' ''Author E'' 2019]"
    by (simp add: python_books_def)
  have ne: "books python_books \<noteq> []" by (simp add: bs)
  have c1: "filter (spec_ci_match ascii_lower ''PYTHON'' ''title'') (books python_books) =
      [Book 1 ''Python Basics'' ''Author C'' 2021, Book 2 ''Advanced Python'' ''Author D'' 2020]"
    unfolding bs spec_ci_match_def field_text_def Book_def by code_simp
  have c2: "filter (spec_ci_match ascii_lower ''202'' ''year'') (books python_books) =
      [Book 1 ''Python Basics'' ''Author C'' 2021, Book 2 ''Advanced Python'' ''Author D'' 2020]"
    unfolding bs spec_ci_match_def field_text_def Book_def by code_simp
  have c3: "filter (spec_ci_match ascii_lower ''2019'' ''year'') (books python_books) =
      [Book 3 ''Cooking'' ''Author E'' 2019]"
    unfolding bs spec_ci_match_def field_text_def Book_def by code_simp
  have c4: "filter (spec_ci_match ascii_lower ''java'' ''title'') (books python_books) = []"
    unfolding bs spec_ci_match_def field_text_def Book_def by code_simp
  have r1: "search_books ascii_runtime ''PYTHON'' ''title'' python_books empty_disk =
       \<lparr>result = Returns None, self = python_books, disk = empty_disk,
        printed = [Book_line (Book 1 ''Python Basics'' ''Author C'' 2021),
                   Book_line (Book 2 ''Advanced Python'' ''Author D'' 2020)]\<rparr>"
    using search_books_matches [of "''title''" ascii_runtime "''PYTHON''" python_books empty_disk ascii_lower] t l
    by (simp add: c1)
  have r2: "search_books ascii_runtime ''202'' ''year'' python_books empty_disk =
       \<lparr>result = Returns None, self = python_books, disk = empty_disk,
        printed = [Book_line (Book 1 ''Python Basics'' ''Author C'' 2021),
                   Book_line (Book 2 ''Advanced Python'' ''Author D'' 2020)]\<rparr>"
    using search_books_matches [of "''year''" ascii_runtime "''202''" python_books empty_disk ascii_lower] y l
    by (simp add: c2)
  have r3: "search_books ascii_runtime ''2019'' ''year'' python_books empty_disk =
       \<lparr>result = Returns None, self = python_books, disk = empty_disk,
        printed = [Book_line (Book 3 ''Cooking'' ''Author E'' 2019)]\<rparr>"
    using search_books_matches [of "''year''" ascii_runtime "''2019''" python_books empty_disk ascii_lower] y l
    by (simp add: c3)
  have r4: "search_books ascii_runtime ''java'' ''title'' python_books empty_disk =
       \<lparr>result = Returns None, self = python_books, disk = empty_disk,
        printed = [Nothing_found ''java'']\<rparr>"
    using search_books_matches [of "''title''" ascii_runtime "''java''" python_books empty_disk ascii_lower] t l
    by (simp add: c4)
  have r5: "search_books ascii_runtime [] ''title'' python_books empty_disk =
       \<lparr>result = Returns None, self = python_books, disk = empty_disk,
        printed = map Book_line (books python_books)\<rparr>"
    using search_books_matches [of "''title''" ascii_runtime "[]" python_books empty_disk ascii_lower] t e ne
    by simp
  from t y l e r1 r2 r3 r4 r5 show ?thesis by (simp only: simp_thms)
qed

text \<open>
  C8 as stated fails: \<^verbatim>\<open>search_books\<close> has no \<^verbatim>\<open>return\<close> statement. With the keyword
  \<^verbatim>\<open>Python\<close> on the field title it returns \<^verbatim>\<open>None\<close>; the two books selected are printed,
  not returned.
\<close>

theorem search_books_returns_none:
  "result (search_books ascii_runtime ''Python'' ''title'' python_books empty_disk) = Returns None
   \<and> printed (search_books ascii_runtime ''Python'' ''title'' python_books empty_disk) =
       [Book_line (Book 1 ''Python Basics'' ''Author C'' 2021),
        Book_line (Book 2 ''Advanced Python'' ''Author D'' 2020)]"
proof -
  have l: "str_lower ascii_runtime = map ascii_lower" by (simp add: ascii_runtime_def)
  have m1: "spec_match ascii_runtime ''Python'' ''title'' (Book 1 ''Python Basics'' ''Author C'' 2021)"
    unfolding spec_match_def l field_text_def Book_def by code_simp
  have m2: "spec_match ascii_runtime ''Python'' ''title'' (Book 2 ''Advanced Python'' ''Author D'' 2020)"
    unfolding spec_match_def l field_text_def Book_def by code_simp
  have m3: "\<not> spec_match ascii_runtime ''Python'' ''title'' (Book 3 ''Cooking'' ''Author E'' 2019)"
    unfolding spec_match_def l field_text_def Book_def by code_simp
  have bs: "books python_books =
      [Book 1 ''Python Basics'' ''Author C'' 2021, Book 2 ''Advanced Python'' ''Author D'' 2020,
       Book 3 ''Cooking'' ''Author E'' 2019]"
    by (simp add: python_books_def)
  have "search_results ascii_runtime ''Python'' ''title'' (books python_books) =
      Returns (filter (spec_match ascii_runtime ''Python'' ''title'') (books python_books))"
    by (rule search_results_data_field) simp
  also have "filter (spec_match ascii_runtime ''Python'' ''title'') (books python_books) =
      [Book 1 ''Python Basics'' ''Author C'' 2021, Book 2 ''Advanced Python'' ''Author D'' 2020]"
    by (simp only: bs filter.simps m1 m2 m3 if_True if_False)
  finally show ?thesis
    by (simp add: search_books_def display_books_def)
qed

subsection \<open>C9: Add\<close>

text \<open>
  C9, as the code has it. \<^verbatim>\<open>add_book\<close> appends the new book (with the title, author and
  year given and the default status) to the end of the list. When the file can be
  written it saves the whole list, prints the book-added line with the title and the
  year, and returns \<^verbatim>\<open>None\<close>; when the file cannot be written, the exception of
  \<^verbatim>\<open>save_books\<close> leaves the method, with the book already appended and nothing printed.
\<close>

theorem add_book_appends:
  "books (self (add_book t a y lib d)) =
     books lib @ [Book (if books lib = [] then 1 else book_id (last (books lib)) + 1) t a y]
   \<and> data_file (self (add_book t a y lib d)) = data_file lib
   \<and> (writable d (data_file lib) \<longrightarrow>
        result (add_book t a y lib d) = Returns None
        \<and> persisted (add_book t a y lib d)
        \<and> printed (add_book t a y lib d) = [Book_added t y])
   \<and> (\<not> writable d (data_file lib) \<longrightarrow>
        result (add_book t a y lib d) = Raises OSError
        \<and> disk (add_book t a y lib d) = d
        \<and> printed (add_book t a y lib d) = [])"
proof -
  let ?new = "Book (if books lib = [] then 1 else book_id (last (books lib)) + 1) t a y"
  let ?lib = "lib\<lparr>books := books lib @ [?new]\<rparr>"
  have eq: "add_book t a y lib d = save_then_print ?lib d (Book_added t y)"
    by (simp add: add_book_def Let_def Book_def)
  have df: "data_file ?lib = data_file lib" by simp
  show ?thesis
    unfolding eq
    using save_then_print_persisted [of ?lib d "Book_added t y" None]
    by (simp add: save_then_print_result save_then_print_printed save_then_print_disk)
qed

theorem add_book_appends_witness:
  "writable empty_disk (data_file one_book)
   \<and> books (self (add_book ''Emma'' ''Austen'' 1815 one_book empty_disk)) =
       [Book 1 ''Dune'' ''Herbert'' 1965, Book 2 ''Emma'' ''Austen'' 1815]
   \<and> result (add_book ''Emma'' ''Austen'' 1815 one_book empty_disk) = Returns None
   \<and> persisted (add_book ''Emma'' ''Austen'' 1815 one_book empty_disk)
   \<and> printed (add_book ''Emma'' ''Austen'' 1815 one_book empty_disk) = [Book_added ''Emma'' 1815]"
proof -
  have w: "writable empty_disk (data_file one_book)" by (simp add: empty_disk_def)
  have b: "books one_book = [Book 1 ''Dune'' ''Herbert'' 1965]" by (simp add: one_book_def)
  have i: "book_id (Book 1 ''Dune'' ''Herbert'' 1965) = 1" by (simp add: Book_def)
  show ?thesis
    using w add_book_appends [of "''Emma''" "''Austen''" 1815 one_book empty_disk]
    by (simp add: b i)
qed

text \<open>
  C9 as stated fails: \<^verbatim>\<open>add_book\<close> has no \<^verbatim>\<open>return\<close> statement. On the empty library
  it returns \<^verbatim>\<open>None\<close>, not the book that it created.
\<close>

theorem add_book_returns_none:
  "result (add_book ''Dune'' ''Herbert'' 1965 no_books empty_disk) = Returns None
   \<and> result (add_book ''Dune'' ''Herbert'' 1965 no_books empty_disk)
       \<noteq> Returns (Some (Book 1 ''Dune'' ''Herbert'' 1965))"
  by (simp add: add_book_def Let_def save_then_print_result no_books_def empty_disk_def)

subsection \<open>C10: search on a name that is not a field\<close>

text \<open>
  C10, as the code has it. For a field name that is none of the five data attributes,
  none of the functions that the class \<^verbatim>\<open>Book\<close> defines (\<^verbatim>\<open>__init__\<close>, \<^verbatim>\<open>to_dict\<close>,
  \<^verbatim>\<open>from_dict\<close>) and none of the names that the runtime resolves on every object,
  \<^verbatim>\<open>search_books\<close> on a library that is not empty raises \<^verbatim>\<open>AttributeError\<close> at the first
  book, prints nothing and changes nothing.
\<close>

theorem search_books_unknown_field:
  assumes "field \<notin> {''id'', ''title'', ''author'', ''year'', ''status''}"
    and "field \<notin> {''__init__'', ''to_dict'', ''from_dict''}"
    and "\<not> builtin_attr rt field"
    and "books lib \<noteq> []"
  shows "search_books rt keyword field lib d =
           \<lparr>result = Raises (AttributeError field), self = lib, disk = d, printed = []\<rparr>"
proof -
  from assms(4) obtain b bs where bs: "books lib = b # bs" by (cases "books lib") auto
  from assms(1-3) have "getattr rt b field = Raises (AttributeError field)"
    by (simp add: getattr_def)
  then have "search_results rt keyword field (books lib) = Raises (AttributeError field)"
    unfolding bs by (rule search_results_unknown_field)
  then show ?thesis by (simp add: search_books_def)
qed

theorem search_books_unknown_field_witness:
  "''isbn'' \<notin> {''id'', ''title'', ''author'', ''year'', ''status''}
   \<and> ''isbn'' \<notin> {''__init__'', ''to_dict'', ''from_dict''}
   \<and> \<not> builtin_attr ascii_runtime ''isbn''
   \<and> books one_book \<noteq> []
   \<and> search_books ascii_runtime ''Dune'' ''isbn'' one_book empty_disk =
       \<lparr>result = Raises (AttributeError ''isbn''), self = one_book, disk = empty_disk, printed = []\<rparr>"
proof -
  have h1: "''isbn'' \<notin> {''id'', ''title'', ''author'', ''year'', ''status''}" by simp
  have h2: "''isbn'' \<notin> {''__init__'', ''to_dict'', ''from_dict''}" by simp
  have h3: "\<not> builtin_attr ascii_runtime ''isbn''" by (simp add: ascii_runtime_def)
  have h4: "books one_book \<noteq> []" by (simp add: one_book_def)
  show ?thesis
    using h1 h2 h3 h4 search_books_unknown_field [OF h1 h2 h3 h4, of "''Dune''" empty_disk]
    by simp
qed

text \<open>
  C10 as stated fails for the name \<^verbatim>\<open>to_dict\<close>, which is outside the five data
  attributes: \<^verbatim>\<open>getattr\<close> finds the method, \<^verbatim>\<open>str\<close> renders it, and with the empty
  keyword the search returns and prints the book.
\<close>

theorem search_books_method_name_no_error:
  "''to_dict'' \<notin> {''title'', ''author'', ''year'', ''id'', ''status''}
   \<and> books one_book \<noteq> []
   \<and> search_books ascii_runtime [] ''to_dict'' one_book empty_disk =
       \<lparr>result = Returns None, self = one_book, disk = empty_disk,
        printed = [Book_line (Book 1 ''Dune'' ''Herbert'' 1965)]\<rparr>"
  by (simp add: search_books_def matches_def getattr_def display_books_def one_book_def
      ascii_runtime_def)

end
